theory Spec2Isabelle
  imports Main
begin

section \<open>Overview\<close>

text \<open>
  The camera proxy \<^verbatim>\<open>AVAPIs_Client.c\<close>: a signal handler with two shutdown flags,
  two relay threads that copy audio and video frames from the vendor transport into
  named pipes, a session manager that forks the consumer process, connects, sends the
  setup commands, runs the relay threads and releases everything, and \<^verbatim>\<open>main\<close>.
  These functions of the source are functions here with the same names; the texts
  printed by \<^verbatim>\<open>PrintErrHandling\<close> and the endless loop of \<^verbatim>\<open>thread_bufferClean\<close>
  appear only as actions. Line numbers refer to the source file.
\<close>

section \<open>Constants\<close>

text \<open>
  Macros and globals of \<^verbatim>\<open>AVAPIs_Client.c\<close> itself (lines 22, 23 and 29).
\<close>

definition AUDIO_FIFO_PATH :: string where "AUDIO_FIFO_PATH = ''audio_fifo''"
definition VIDEO_FIFO_PATH :: string where "VIDEO_FIFO_PATH = ''video_fifo''"
definition gSleepUs :: int where "gSleepUs = 10000"

text \<open>
  Constants of the C library headers \<^verbatim>\<open>signal.h\<close> and \<^verbatim>\<open>stdlib.h\<close>, with
  their Linux values.
\<close>

definition SIGINT :: int where "SIGINT = 2"
definition SIGKILL :: int where "SIGKILL = 9"
definition SIGPIPE :: int where "SIGPIPE = 13"
definition EXIT_FAILURE :: int where "EXIT_FAILURE = 1"

text \<open>
  Modelled from the spec: the vendor headers \<^verbatim>\<open>IOTCAPIs.h\<close>, \<^verbatim>\<open>AVAPIs.h\<close> and
  \<^verbatim>\<open>AVIOCTRLDEFs.h\<close> are not among the sources. The spec lists
  \<open>WouldBlock/NotReady\<close>, \<open>SessionClosedByRemote\<close>, \<open>RemoteTimeoutDisconnect\<close>,
  \<open>InvalidSessionID\<close> and \<open>LostFrame\<close> as distinct receive results and the setup
  and stop commands as distinct numeric opcodes. The numbers are those of the vendor
  SDK (the comment on line 101 of the source gives \<open>-14\<close> for the invalid session);
  the theorems below use only that \<open>IOTC_ER_NoERROR\<close> is 0 and that the error codes
  are negative and pairwise distinct.
\<close>

definition IOTC_ER_NoERROR :: int where "IOTC_ER_NoERROR = 0"
definition IOTC_ER_INVALID_SID :: int where "IOTC_ER_INVALID_SID = - 14"
definition AV_ER_DATA_NOREADY :: int where "AV_ER_DATA_NOREADY = - 20012"
definition AV_ER_LOSED_THIS_FRAME :: int where "AV_ER_LOSED_THIS_FRAME = - 20014"
definition AV_ER_SESSION_CLOSE_BY_REMOTE :: int where
  "AV_ER_SESSION_CLOSE_BY_REMOTE = - 20015"
definition AV_ER_REMOTE_TIMEOUT_DISCONNECT :: int where
  "AV_ER_REMOTE_TIMEOUT_DISCONNECT = - 20016"
definition IOTYPE_USER_IPCAM_START :: int where "IOTYPE_USER_IPCAM_START = 0x01FF"
definition IOTYPE_USER_IPCAM_STOP :: int where "IOTYPE_USER_IPCAM_STOP = 0x02FF"
definition IOTYPE_USER_IPCAM_AUDIOSTART :: int where "IOTYPE_USER_IPCAM_AUDIOSTART = 0x0300"
definition IOTYPE_USER_IPCAM_SETSTREAMCTRL_REQ :: int where
  "IOTYPE_USER_IPCAM_SETSTREAMCTRL_REQ = 0x0320"

section \<open>Observable actions\<close>

text \<open>
  The program is a sequence of calls into the C library and the vendor SDK. A run is
  recorded as the list of these calls, in program order, with the arguments the program
  passes; the values the calls return come from an environment. Buffers and the
  metadata out-parameters are not recorded. \<open>Write fd n\<close> records the \<open>int\<close> that
  the source passes as the byte count.
\<close>

datatype oflag = O_WRONLY | O_RDWR

datatype thread_fn =
  Fn_thread_ReceiveVideo | Fn_thread_ReceiveAudio | Fn_thread_bufferClean | Fn_thread_ConnectCCR

datatype event =
    Printf string "int list"
  | Perror string
  | Fprintf_stderr string
  | Fork
  | Open string oflag
  | Execlp string "string list"
  | Close int
  | Kill int int
  | Write int int
  | Usleep int
  | Pthread_create thread_fn
  | Pthread_join thread_fn
  | IOTC_Get_SessionID
  | IOTC_Connect_ByUID_Parallel int
  | AvClientStart2 int
  | AvSendIOCtrl int int
  | AvClientExit int int
  | AvClientStop int
  | IOTC_Session_Close int
  | AvCheckAudioBuf int
  | AvRecvAudioData int
  | AvRecvFrameData2 int
  | Register_handler int
  | IOTC_Initialize2 int
  | PrintErrHandling int
  | AvInitialize int
  | AvGetAVApiVer
  | IOTC_Lan_Search
  | AvDeInitialize
  | IOTC_DeInitialize

text \<open>
  A piece of code either goes on with a new state or calls \<^verbatim>\<open>exit\<close>, which ends
  the whole process with the given code.
\<close>

datatype 'a step = Next 'a | CallsExit int

section \<open>The shutdown flags and the signal handler\<close>

text \<open>The two globals of lines 31 and 32; both start at 0.\<close>

record globals =
  graceful_shutdown :: int
  sigkill :: int

definition init_globals :: globals where
  "init_globals = \<lparr>graceful_shutdown = 0, sigkill = 0\<rparr>"

definition msg_sigpipe :: string where
  "msg_sigpipe = ''Caught SIGPIPE signal\<newline>''"
definition msg_graceful :: string where
  "msg_graceful = ''Caught SIGINT signal\<newline>. Gracefully shutting down...\<newline>''"
definition msg_forced :: string where
  "msg_forced = ''Caught 2 SIGINT signals\<newline>. Forcefully shutting down...\<newline>''"

text \<open>\<^verbatim>\<open>sigpipe_handler\<close>, lines 34 to 54.\<close>

definition sigpipe_handler :: "int \<Rightarrow> globals \<Rightarrow> event list \<times> globals step" where
  "sigpipe_handler signo g =
     (if signo = SIGPIPE then ([Fprintf_stderr msg_sigpipe], Next g)
      else if signo = SIGINT then
        (if sigkill g \<noteq> 1
         then ([Fprintf_stderr msg_graceful], Next (g\<lparr>graceful_shutdown := 1, sigkill := 1\<rparr>))
         else ([Fprintf_stderr msg_forced], CallsExit 1))
      else ([], Next g))"

text \<open>
  The handler run on a sequence of signals, one after the other, until one of them ends
  the process.
\<close>

fun deliver_all :: "int list \<Rightarrow> globals \<Rightarrow> event list \<times> globals step" where
  "deliver_all [] g = ([], Next g)"
| "deliver_all (s # ss) g =
     (case sigpipe_handler s g of
        (ev, CallsExit c) \<Rightarrow> (ev, CallsExit c)
      | (ev, Next g') \<Rightarrow> (case deliver_all ss g' of (evs, r) \<Rightarrow> (ev @ evs, r)))"

section \<open>A process: one thread and the signal handler\<close>

text \<open>
  A relay thread runs one statement at a time; between two statements a signal may
  arrive and run the handler. A schedule is a list of actions: \<open>Signal s\<close> delivers
  the signal \<open>s\<close>, \<open>Step r\<close> lets the thread run its next statement, \<open>r\<close> being the
  value that the call in that statement returns (ignored by a statement that makes no
  call). The thread reads the globals and never writes them. After \<^verbatim>\<open>exit\<close> nothing
  runs any more.
\<close>

datatype action = Signal int | Step int

datatype 'l proc = Running globals 'l | Exited int

definition proc_action ::
  "(int \<Rightarrow> globals \<Rightarrow> 'l \<Rightarrow> event list \<times> 'l step) \<Rightarrow> action \<Rightarrow> 'l proc \<Rightarrow> event list \<times> 'l proc" where
  "proc_action stmt a p =
     (case p of
        Exited c \<Rightarrow> ([], Exited c)
      | Running g l \<Rightarrow>
          (case a of
             Signal s \<Rightarrow>
               (case sigpipe_handler s g of
                  (ev, Next g') \<Rightarrow> (ev, Running g' l)
                | (ev, CallsExit c) \<Rightarrow> (ev, Exited c))
           | Step r \<Rightarrow>
               (case stmt r g l of
                  (ev, Next l') \<Rightarrow> (ev, Running g l')
                | (ev, CallsExit c) \<Rightarrow> (ev, Exited c))))"

fun proc_run ::
  "(int \<Rightarrow> globals \<Rightarrow> 'l \<Rightarrow> event list \<times> 'l step) \<Rightarrow> action list \<Rightarrow> 'l proc \<Rightarrow> event list \<times> 'l proc" where
  "proc_run stmt [] p = ([], p)"
| "proc_run stmt (a # as) p =
     (case proc_action stmt a p of
        (ev, p') \<Rightarrow> (case proc_run stmt as p' of (evs, p'') \<Rightarrow> (ev @ evs, p'')))"

fun is_write :: "event \<Rightarrow> bool" where
  "is_write (Write fd n) = True"
| "is_write _ = False"

definition writes :: "event list \<Rightarrow> nat" where
  "writes evs = length (filter is_write evs)"

section \<open>The audio relay loop\<close>

text \<open>
  \<^verbatim>\<open>thread_ReceiveAudio\<close>, lines 199 to 272. The program points are: the \<^verbatim>\<open>open\<close>
  of line 211 (with the two \<^verbatim>\<open>printf\<close> before it), \<^verbatim>\<open>avCheckAudioBuf\<close> of line 219,
  \<^verbatim>\<open>avRecvAudioData\<close> of line 228, the test of the flag on line 250, the \<^verbatim>\<open>write\<close> of
  line 256, the test of the flag on line 261, and the \<^verbatim>\<open>close\<close> of line 267. The
  locals \<^verbatim>\<open>ret\<close> and \<^verbatim>\<open>audio_pipe_fd\<close> have no value before their first assignment;
  the model starts them at 0 and never reads them before they are assigned.
\<close>

datatype apc = A_Open | A_Check | A_Recv | A_Test1 | A_Write | A_Test2 | A_Close | A_Done

record alocal =
  a_pc :: apc
  a_avIndex :: int
  a_ret :: int
  audio_pipe_fd :: int

definition audio_start :: "int \<Rightarrow> alocal" where
  "audio_start avIndex = \<lparr>a_pc = A_Open, a_avIndex = avIndex, a_ret = 0, audio_pipe_fd = 0\<rparr>"

definition thread_ReceiveAudio :: "int \<Rightarrow> globals \<Rightarrow> alocal \<Rightarrow> event list \<times> alocal step" where
  "thread_ReceiveAudio r g l =
     (case a_pc l of
        A_Open \<Rightarrow>
          (let ev = [Printf ''Audio Starting...\<newline>'' [],
                     Printf ''Start IPCAM audio stream OK!\<newline>'' [],
                     Open AUDIO_FIFO_PATH O_WRONLY]
           in if r = - 1 then (ev @ [Perror ''open''], CallsExit EXIT_FAILURE)
              else (ev, Next (l\<lparr>audio_pipe_fd := r, a_pc := A_Check\<rparr>)))
      | A_Check \<Rightarrow>
          (if r < 0 then ([AvCheckAudioBuf (a_avIndex l)], Next (l\<lparr>a_ret := r, a_pc := A_Close\<rparr>))
           else if r < 25 then
             ([AvCheckAudioBuf (a_avIndex l), Usleep gSleepUs], Next (l\<lparr>a_ret := r, a_pc := A_Check\<rparr>))
           else ([AvCheckAudioBuf (a_avIndex l)], Next (l\<lparr>a_ret := r, a_pc := A_Recv\<rparr>)))
      | A_Recv \<Rightarrow>
          (if r = AV_ER_SESSION_CLOSE_BY_REMOTE then
             ([AvRecvAudioData (a_avIndex l),
               Printf ''[thread_ReceiveAudio] AV_ER_SESSION_CLOSE_BY_REMOTE\<newline>'' []],
              Next (l\<lparr>a_ret := r, a_pc := A_Close\<rparr>))
           else if r = AV_ER_REMOTE_TIMEOUT_DISCONNECT then
             ([AvRecvAudioData (a_avIndex l),
               Printf ''[thread_ReceiveAudio] AV_ER_REMOTE_TIMEOUT_DISCONNECT\<newline>'' []],
              Next (l\<lparr>a_ret := r, a_pc := A_Close\<rparr>))
           else if r = IOTC_ER_INVALID_SID then
             ([AvRecvAudioData (a_avIndex l),
               Printf ''[thread_ReceiveAudio] Session cant be used anymore\<newline>'' []],
              Next (l\<lparr>a_ret := r, a_pc := A_Close\<rparr>))
           else if r = AV_ER_LOSED_THIS_FRAME then
             ([AvRecvAudioData (a_avIndex l)], Next (l\<lparr>a_ret := r, a_pc := A_Check\<rparr>))
           else ([AvRecvAudioData (a_avIndex l)], Next (l\<lparr>a_ret := r, a_pc := A_Test1\<rparr>)))
      | A_Test1 \<Rightarrow>
          (if graceful_shutdown g = 1 then ([], Next (l\<lparr>a_pc := A_Close\<rparr>))
           else ([], Next (l\<lparr>a_pc := A_Write\<rparr>)))
      | A_Write \<Rightarrow>
          (if r < 0 then
             ([Write (audio_pipe_fd l) (a_ret l),
               Printf ''audio_playback::write , ret=[%d]\<newline>'' [r]],
              Next (l\<lparr>a_ret := r, a_pc := A_Test2\<rparr>))
           else ([Write (audio_pipe_fd l) (a_ret l)], Next (l\<lparr>a_ret := r, a_pc := A_Test2\<rparr>)))
      | A_Test2 \<Rightarrow>
          (if graceful_shutdown g = 1 then ([], Next (l\<lparr>a_pc := A_Close\<rparr>))
           else ([], Next (l\<lparr>a_pc := A_Check\<rparr>)))
      | A_Close \<Rightarrow>
          ([Close (audio_pipe_fd l), Printf ''[thread_ReceiveAudio] thread exit\<newline>'' []],
           Next (l\<lparr>a_pc := A_Done\<rparr>))
      | A_Done \<Rightarrow> ([], Next l))"

section \<open>The video relay loop\<close>

text \<open>
  \<^verbatim>\<open>thread_ReceiveVideo\<close>, lines 285 to 349. The program points are: the \<^verbatim>\<open>open\<close>
  of line 296, \<^verbatim>\<open>avRecvFrameData2\<close> of line 308, the \<^verbatim>\<open>write\<close> of line 332, the
  test of the flag on line 337, and the \<^verbatim>\<open>close\<close> of line 344. There is no test of
  the flag between the receive and the write.
\<close>

datatype vpc = V_Open | V_Recv | V_Write | V_Test | V_Close | V_Done

record vlocal =
  v_pc :: vpc
  v_avIndex :: int
  v_ret :: int
  video_pipe_fd :: int

definition video_start :: "int \<Rightarrow> vlocal" where
  "video_start avIndex = \<lparr>v_pc = V_Open, v_avIndex = avIndex, v_ret = 0, video_pipe_fd = 0\<rparr>"

definition thread_ReceiveVideo :: "int \<Rightarrow> globals \<Rightarrow> vlocal \<Rightarrow> event list \<times> vlocal step" where
  "thread_ReceiveVideo r g l =
     (case v_pc l of
        V_Open \<Rightarrow>
          (let ev = [Printf ''Video starting...\<newline>'' [],
                     Printf ''Start IPCAM video stream OK!\<newline>'' [],
                     Open VIDEO_FIFO_PATH O_WRONLY]
           in if r = - 1 then (ev @ [Perror ''open''], CallsExit EXIT_FAILURE)
              else (ev, Next (l\<lparr>video_pipe_fd := r, v_pc := V_Recv\<rparr>)))
      | V_Recv \<Rightarrow>
          (if r = AV_ER_DATA_NOREADY then
             ([AvRecvFrameData2 (v_avIndex l), Usleep gSleepUs], Next (l\<lparr>v_ret := r, v_pc := V_Recv\<rparr>))
           else if r = AV_ER_SESSION_CLOSE_BY_REMOTE then
             ([AvRecvFrameData2 (v_avIndex l),
               Printf ''[thread_ReceiveVideo] AV_ER_SESSION_CLOSE_BY_REMOTE\<newline>'' []],
              Next (l\<lparr>v_ret := r, v_pc := V_Close\<rparr>))
           else if r = AV_ER_REMOTE_TIMEOUT_DISCONNECT then
             ([AvRecvFrameData2 (v_avIndex l),
               Printf ''[thread_ReceiveVideo] AV_ER_REMOTE_TIMEOUT_DISCONNECT\<newline>'' []],
              Next (l\<lparr>v_ret := r, v_pc := V_Close\<rparr>))
           else if r = IOTC_ER_INVALID_SID then
             ([AvRecvFrameData2 (v_avIndex l),
               Printf ''[thread_ReceiveVideo] Session cant be used anymore\<newline>'' []],
              Next (l\<lparr>v_ret := r, v_pc := V_Close\<rparr>))
           else ([AvRecvFrameData2 (v_avIndex l)], Next (l\<lparr>v_ret := r, v_pc := V_Write\<rparr>)))
      | V_Write \<Rightarrow>
          (if r < 0 then
             ([Write (video_pipe_fd l) (v_ret l),
               Printf ''video_playback::write , ret=[%d]\<newline>'' [r]],
              Next (l\<lparr>v_ret := r, v_pc := V_Test\<rparr>))
           else ([Write (video_pipe_fd l) (v_ret l)], Next (l\<lparr>v_ret := r, v_pc := V_Test\<rparr>)))
      | V_Test \<Rightarrow>
          (if graceful_shutdown g = 1 then ([], Next (l\<lparr>v_pc := V_Close\<rparr>))
           else ([], Next (l\<lparr>v_pc := V_Recv\<rparr>)))
      | V_Close \<Rightarrow>
          ([Close (video_pipe_fd l), Printf ''[thread_ReceiveVideo] thread exit\<newline>'' []],
           Next (l\<lparr>v_pc := V_Done\<rparr>))
      | V_Done \<Rightarrow> ([], Next l))"

section \<open>The setup commands\<close>

text \<open>
  \<^verbatim>\<open>start_ipcam_stream\<close>, lines 352 to 395. The environment gives what each of the
  four \<^verbatim>\<open>avSendIOCtrl\<close> calls returns. In the first two tests the comparison sits
  inside the assignment, \<^verbatim>\<open>(ret = avSendIOCtrl(...) < 0)\<close>, so \<^verbatim>\<open>ret\<close> holds the
  truth value of the comparison, and the \<^verbatim>\<open>printf\<close> of those branches prints 1.
  The function returns 0 for failure and 1 for success.
\<close>

record ioctrl_env =
  nightvision_ret :: int
  quality_ret :: int
  start_ret :: int
  audiostart_ret :: int

definition msg_start_failed :: string where
  "msg_start_failed = ''start_ipcam_stream failed[%d]\<newline>''"

definition start_ipcam_stream :: "ioctrl_env \<Rightarrow> int \<Rightarrow> event list \<times> int" where
  "start_ipcam_stream e avIndex =
     (let ev1 = [AvSendIOCtrl avIndex 0x5000] in
      if nightvision_ret e < 0 then (ev1 @ [Printf msg_start_failed [1]], 0)
      else
      let ev2 = ev1 @ [AvSendIOCtrl avIndex IOTYPE_USER_IPCAM_SETSTREAMCTRL_REQ] in
      if quality_ret e < 0 then (ev2 @ [Printf msg_start_failed [1]], 0)
      else
      let ev3 = ev2 @ [AvSendIOCtrl avIndex IOTYPE_USER_IPCAM_START] in
      if start_ret e < 0 then (ev3 @ [Printf msg_start_failed [start_ret e]], 0)
      else
      let ev4 = ev3 @ [AvSendIOCtrl avIndex IOTYPE_USER_IPCAM_AUDIOSTART] in
      if audiostart_ret e < 0 then (ev4 @ [Printf msg_start_failed [audiostart_ret e]], 0)
      else (ev4, 1))"

section \<open>The session manager\<close>

text \<open>
  \<^verbatim>\<open>thread_ConnectCCR\<close>, lines 397 to 509. The environment gives the value of every
  call. \<^verbatim>\<open>fork\<close> returns 0 in the child, \<open>-1\<close> on failure and the child's process id
  in the parent; the function is run by both processes and the model follows whichever
  the environment selects. \<^verbatim>\<open>execlp\<close> returns only when it fails. A \<^verbatim>\<open>pthread_join\<close>
  returns when the relay thread returns; the relay thread may instead end the process
  (its \<^verbatim>\<open>exit\<close> on line 214 or 299) or never return, and the environment says which.
\<close>

datatype join_result = Joined | ProcessExits int | NeverReturns

datatype outcome = Returns int | Exits int | Replaced | Blocked

record conn_env =
  fork_ret :: int
  audio_open_ret :: int
  video_open_ret :: int
  execlp_fails :: bool
  get_session_ret :: int
  connect_ret :: int
  client_start_ret :: int
  ioctrl :: ioctrl_env
  create_video_ret :: int
  video_tid :: int
  create_audio_ret :: int
  audio_tid :: int
  create_clean_ret :: int
  video_join :: join_result
  audio_join :: join_result
  stop_ret :: int

definition ffmpeg_args :: "string list" where
  "ffmpeg_args =
     [''ffmpeg'', ''-re'', ''-hide_banner'', ''-thread_queue_size'', ''4096'', ''-f'', ''s16le'',
      ''-ar'', ''8000'', ''-ac'', ''1'', ''-i'', AUDIO_FIFO_PATH,
      ''-thread_queue_size'', ''4096'', ''-f'', ''h264'', ''-i'', VIDEO_FIFO_PATH,
      ''-c:a'', ''aac'', ''-b:a'', ''8000'', ''-c:v'', ''libx264'', ''-f'', ''rtsp'',
      ''-rtsp_transport'', ''tcp'', ''rtsp://localhost:8554/stream'']"

text \<open>
  Lines 455 to 485: the setup commands and, when they succeed, the three threads and
  the two joins. The result is \<open>None\<close> when control falls through to line 487.
\<close>

definition join_thread ::
  "thread_fn \<Rightarrow> int \<Rightarrow> join_result \<Rightarrow> event list \<times> outcome option" where
  "join_thread fn tid j =
     (if tid \<noteq> 0 then
        (case j of
           Joined \<Rightarrow> ([Pthread_join fn], None)
         | ProcessExits c \<Rightarrow> ([Pthread_join fn], Some (Exits c))
         | NeverReturns \<Rightarrow> ([Pthread_join fn], Some Blocked))
      else ([], None))"

definition streaming :: "conn_env \<Rightarrow> int \<Rightarrow> event list \<times> outcome option" where
  "streaming e avIndex =
     (case start_ipcam_stream (ioctrl e) avIndex of
        (ev0, started) \<Rightarrow>
          if started \<noteq> 0 then
            (let ev1 = ev0 @ [Printf ''Start IP Camera...\<newline>'' [],
                              Pthread_create Fn_thread_ReceiveVideo] in
             if create_video_ret e \<noteq> 0 then
               (ev1 @ [Printf ''Create Video Receive thread failed\<newline>'' []], Some (Exits (- 1)))
             else
             let ev2 = ev1 @ [Pthread_create Fn_thread_ReceiveAudio] in
             if create_audio_ret e \<noteq> 0 then
               (ev2 @ [Printf ''Create Audio Receive thread failed\<newline>'' []], Some (Exits (- 1)))
             else
             let ev3 = ev2 @ [Pthread_create Fn_thread_bufferClean] in
             if create_clean_ret e \<noteq> 0 then
               (ev3 @ [Printf ''Create Audio Receive thread failed\<newline>'' []], Some (Exits (- 1)))
             else
             (case join_thread Fn_thread_ReceiveVideo (video_tid e) (video_join e) of
                (evv, Some out) \<Rightarrow> (ev3 @ evv, Some out)
              | (evv, None) \<Rightarrow>
                  (case join_thread Fn_thread_ReceiveAudio (audio_tid e) (audio_join e) of
                     (eva, r) \<Rightarrow> (ev3 @ evv @ eva, r))))
          else (ev0, None))"

text \<open>Lines 487 to 508: the stop command and the releases.\<close>

definition teardown :: "conn_env \<Rightarrow> int \<Rightarrow> int \<Rightarrow> int \<Rightarrow> int \<Rightarrow> int \<Rightarrow> event list \<times> outcome" where
  "teardown e ffmpeg_pid audio_fd video_fd SID avIndex =
     (if stop_ret e < 0 then
        ([AvSendIOCtrl avIndex IOTYPE_USER_IPCAM_STOP,
          Printf ''stop_ipcam_audio failed[%d]\<newline>'' [stop_ret e]], Returns 0)
      else
        ([AvSendIOCtrl avIndex IOTYPE_USER_IPCAM_STOP,
          Close video_fd, Close audio_fd,
          Kill ffmpeg_pid SIGKILL,
          AvClientExit SID 0, AvClientStop avIndex, Printf ''Client stopped\<newline>'' [],
          IOTC_Session_Close SID, Printf ''Session closed\<newline>'' []], Returns 0))"

definition thread_ConnectCCR :: "conn_env \<Rightarrow> event list \<times> outcome" where
  "thread_ConnectCCR e =
     (let ffmpeg_pid = fork_ret e;
          ev1 = [Fork, Open AUDIO_FIFO_PATH O_RDWR] in
      if audio_open_ret e = - 1 then (ev1 @ [Perror ''open''], Exits EXIT_FAILURE)
      else
      let ev2 = ev1 @ [Open VIDEO_FIFO_PATH O_RDWR] in
      if video_open_ret e = - 1 then (ev2 @ [Perror ''open''], Exits EXIT_FAILURE)
      else if ffmpeg_pid = 0 then
        (if execlp_fails e
         then (ev2 @ [Execlp ''ffmpeg'' ffmpeg_args, Perror ''execlp''], Exits EXIT_FAILURE)
         else (ev2 @ [Execlp ''ffmpeg'' ffmpeg_args], Replaced))
      else if ffmpeg_pid = - 1 then (ev2 @ [Perror ''fork''], Exits EXIT_FAILURE)
      else
      let ev3 = ev2 @ [IOTC_Get_SessionID];
          tmpSID = get_session_ret e in
      if tmpSID < 0 then (ev3 @ [Printf ''Get session ID failed\<newline>'' []], Returns 0)
      else
      let ev4 = ev3 @ [IOTC_Connect_ByUID_Parallel tmpSID];
          SID = connect_ret e in
      if SID < 0 then (ev4 @ [Printf ''Connect by UID failed\<newline>'' []], Returns 0)
      else
      let ev5 = ev4 @ [AvClientStart2 SID];
          avIndex = client_start_ret e in
      if avIndex < 0 then (ev5 @ [Printf ''avClientStart2 failed[%d]\<newline>'' [avIndex]], Returns 0)
      else
      let ev6 = ev5 @ [Printf ''Client started!\<newline>'' []] in
      (case streaming e avIndex of
         (evs, Some out) \<Rightarrow> (ev6 @ evs, out)
       | (evs, None) \<Rightarrow>
           (case teardown e ffmpeg_pid (audio_open_ret e) (video_open_ret e) SID avIndex of
              (evt, out) \<Rightarrow> (ev6 @ evs @ evt, out))))"

section \<open>The program\<close>

text \<open>
  \<^verbatim>\<open>main\<close>, lines 511 to 576. The seeding of the random generator, the formatting of
  the version string and the texts printed by \<^verbatim>\<open>PrintErrHandling\<close> are left out. The
  LAN search prints one line for each device found; \<open>lan_port e i\<close> is the port
  field of entry \<open>i\<close> of the result array, the integer that line 557 hands to
  \<^verbatim>\<open>printf\<close> (the two strings of that line are not recorded). The connect thread is
  run to its end at the join.
\<close>

record main_env =
  argc :: int
  initialize_ret :: int
  malloc_null :: bool
  nDeviceNum :: int
  lan_port :: "nat \<Rightarrow> int"
  create_connect_ret :: int
  conn :: conn_env

definition lan_search :: "main_env \<Rightarrow> event list" where
  "lan_search e =
     (if \<not> malloc_null e then
        [IOTC_Lan_Search, Printf ''Searching lan for camera's...\<newline>'' []]
        @ map (\<lambda>i. Printf ''UID[%s] Addr[%s:%d]\<newline>'' [lan_port e i])
            [0 ..< nat (nDeviceNum e)]
      else [])"

definition main :: "main_env \<Rightarrow> event list \<times> outcome" where
  "main e =
     (let ev0 = [Register_handler SIGPIPE, Register_handler SIGINT] in
      if argc e < 2 then
        (ev0 @ [Printf ''Argument Error!!!\<newline>'' [],
                Printf ''Usage: ./AVAPIs_Client UID\<newline>'' []], Returns (- 1))
      else
      let ev1 = ev0 @ [IOTC_Initialize2 0];
          ret = initialize_ret e in
      if ret \<noteq> IOTC_ER_NoERROR then
        (ev1 @ [Printf ''IOTCAPIs_Device exit...!!\<newline>'' [], PrintErrHandling ret], Returns 0)
      else
      let ev2 = ev1 @ [AvInitialize 32, AvGetAVApiVer,
                       Printf ''LSC Indoor Camera Proxy[1.0] AVAPI version[%s]\<newline>'' []]
                @ lan_search e
                @ [Printf ''LAN search done...\<newline>'' [], Pthread_create Fn_thread_ConnectCCR] in
      if create_connect_ret e \<noteq> 0 then
        (ev2 @ [Printf ''pthread_create(ConnectThread_ID), ret=[%d]\<newline>'' [create_connect_ret e]],
         Exits (- 1))
      else
      (case thread_ConnectCCR (conn e) of
         (evc, Returns v) \<Rightarrow>
           (ev2 @ evc @ [Pthread_join Fn_thread_ConnectCCR, AvDeInitialize, IOTC_DeInitialize],
            Returns 0)
       | (evc, out) \<Rightarrow> (ev2 @ evc, out)))"

section \<open>Sample environments\<close>

text \<open>
  A run of the parent process in which every call succeeds: the child has process id
  4242, the sinks get the descriptors 3 and 4, the session is 1 and the stream is 2,
  and both relay threads return. The concrete runs below vary one field at a time.
\<close>

definition io_ok :: ioctrl_env where
  "io_ok = \<lparr>nightvision_ret = 0, quality_ret = 0, start_ret = 0, audiostart_ret = 0\<rparr>"

definition env_ok :: conn_env where
  "env_ok =
     \<lparr>fork_ret = 4242, audio_open_ret = 3, video_open_ret = 4, execlp_fails = False,
      get_session_ret = 1, connect_ret = 1, client_start_ret = 2, ioctrl = io_ok,
      create_video_ret = 0, video_tid = 11, create_audio_ret = 0, audio_tid = 12,
      create_clean_ret = 0, video_join = Joined, audio_join = Joined, stop_ret = 0\<rparr>"

definition main_ok :: main_env where
  "main_ok =
     \<lparr>argc = 2, initialize_ret = 0, malloc_null = False, nDeviceNum = 1,
      lan_port = (\<lambda>i. 32761), create_connect_ret = 0, conn = env_ok\<rparr>"

section \<open>Kinds of actions\<close>

fun is_ioctrl :: "event \<Rightarrow> bool" where
  "is_ioctrl (AvSendIOCtrl i c) = True"
| "is_ioctrl _ = False"

fun is_spawn :: "event \<Rightarrow> bool" where
  "is_spawn (Pthread_create fn) = True"
| "is_spawn _ = False"

section \<open>Write budgets\<close>

text \<open>
  How many writes a relay thread can still perform once the cancellation flag is set,
  as a function of its program point: the audio thread only when it stands at the
  \<^verbatim>\<open>write\<close>, the video thread when it stands at the \<^verbatim>\<open>write\<close> or before the
  receive that leads to it.
\<close>

definition audio_budget :: "alocal \<Rightarrow> nat" where
  "audio_budget l = (if a_pc l = A_Write then 1 else 0)"

definition video_budget :: "vlocal \<Rightarrow> nat" where
  "video_budget l = (if v_pc l = V_Recv \<or> v_pc l = V_Write \<or> v_pc l = V_Open then 1 else 0)"

section \<open>Unfolding rules for the constants\<close>

lemmas sdk_defs =
  IOTC_ER_NoERROR_def IOTC_ER_INVALID_SID_def AV_ER_DATA_NOREADY_def
  AV_ER_LOSED_THIS_FRAME_def AV_ER_SESSION_CLOSE_BY_REMOTE_def
  AV_ER_REMOTE_TIMEOUT_DISCONNECT_def IOTYPE_USER_IPCAM_START_def
  IOTYPE_USER_IPCAM_STOP_def IOTYPE_USER_IPCAM_AUDIOSTART_def
  IOTYPE_USER_IPCAM_SETSTREAMCTRL_REQ_def

lemmas libc_defs = SIGINT_def SIGKILL_def SIGPIPE_def EXIT_FAILURE_def

section \<open>Properties of the signal handler\<close>

lemma handler_sigint_first:
  "sigkill g \<noteq> 1 \<Longrightarrow>
   sigpipe_handler SIGINT g =
     ([Fprintf_stderr msg_graceful], Next (g\<lparr>graceful_shutdown := 1, sigkill := 1\<rparr>))"
  by (simp add: sigpipe_handler_def libc_defs)

lemma handler_sigint_second:
  "sigkill g = 1 \<Longrightarrow> sigpipe_handler SIGINT g = ([Fprintf_stderr msg_forced], CallsExit 1)"
  by (simp add: sigpipe_handler_def libc_defs)

lemma handler_exit_only_forced:
  "sigpipe_handler s g = (ev, CallsExit c) \<Longrightarrow>
   s = SIGINT \<and> sigkill g = 1 \<and> c = 1 \<and> ev = [Fprintf_stderr msg_forced]"
  by (auto simp: sigpipe_handler_def split: if_splits)

lemma handler_keeps_flag:
  "sigpipe_handler s g = (ev, Next g') \<Longrightarrow> graceful_shutdown g = 1 \<Longrightarrow> graceful_shutdown g' = 1"
  by (auto simp: sigpipe_handler_def split: if_splits)

lemma handler_keeps_pending:
  "sigpipe_handler s g = (ev, Next g') \<Longrightarrow>
   (sigkill g = 1 \<longrightarrow> graceful_shutdown g = 1) \<Longrightarrow>
   (sigkill g' = 1 \<longrightarrow> graceful_shutdown g' = 1)"
  by (auto simp: sigpipe_handler_def split: if_splits)

lemma handler_no_write: "writes (fst (sigpipe_handler s g)) = 0"
  by (simp add: sigpipe_handler_def writes_def)

lemma msgs_distinct:
  "msg_graceful \<noteq> msg_sigpipe" "msg_graceful \<noteq> msg_forced"
  "msg_sigpipe \<noteq> msg_graceful" "msg_forced \<noteq> msg_graceful"
  by (simp_all add: msg_graceful_def msg_sigpipe_def msg_forced_def)

lemma handler_graceful_count:
  "sigpipe_handler s g = (ev, r) \<Longrightarrow>
   count_list ev (Fprintf_stderr msg_graceful) = (if s = SIGINT \<and> sigkill g \<noteq> 1 then 1 else 0)"
  by (auto simp: sigpipe_handler_def msgs_distinct libc_defs split: if_splits)

lemma handler_sets_sigkill:
  "sigpipe_handler s g = (ev, Next g') \<Longrightarrow> s = SIGINT \<and> sigkill g \<noteq> 1 \<or> sigkill g = 1 \<Longrightarrow> sigkill g' = 1"
  by (auto simp: sigpipe_handler_def libc_defs split: if_splits)

lemma deliver_all_graceful_once:
  "count_list (fst (deliver_all sigs g)) (Fprintf_stderr msg_graceful)
     \<le> (if sigkill g = 1 then 0 else 1)"
proof (induction sigs arbitrary: g)
  case Nil
  show ?case by simp
next
  case (Cons s sigs)
  obtain ev r where h: "sigpipe_handler s g = (ev, r)" by (cases "sigpipe_handler s g")
  show ?case
  proof (cases r)
    case (CallsExit c)
    with h handler_graceful_count [OF h] handler_exit_only_forced [of s g ev c]
    show ?thesis by simp
  next
    case (Next g')
    obtain evs r' where d: "deliver_all sigs g' = (evs, r')" by (cases "deliver_all sigs g'")
    have ih: "count_list evs (Fprintf_stderr msg_graceful) \<le> (if sigkill g' = 1 then 0 else 1)"
      using Cons.IH [of g'] d by simp
    have c: "count_list ev (Fprintf_stderr msg_graceful) = (if s = SIGINT \<and> sigkill g \<noteq> 1 then 1 else 0)"
      by (rule handler_graceful_count [OF h])
    have k: "s = SIGINT \<and> sigkill g \<noteq> 1 \<or> sigkill g = 1 \<Longrightarrow> sigkill g' = 1"
      using handler_sets_sigkill h Next by blast
    show ?thesis
      using h Next d ih c k by (auto split: if_splits)
  qed
qed

lemma deliver_all_pending:
  "deliver_all sigs g = (evs, Next g') \<Longrightarrow>
   (sigkill g = 1 \<longrightarrow> graceful_shutdown g = 1) \<Longrightarrow>
   (sigkill g' = 1 \<longrightarrow> graceful_shutdown g' = 1)"
proof (induction sigs arbitrary: g evs)
  case Nil
  then show ?case by simp
next
  case (Cons s sigs)
  obtain ev r where h: "sigpipe_handler s g = (ev, r)" by (cases "sigpipe_handler s g")
  show ?case
  proof (cases r)
    case (CallsExit c)
    with h Cons.prems show ?thesis by simp
  next
    case (Next g1)
    obtain evs1 r1 where d: "deliver_all sigs g1 = (evs1, r1)" by (cases "deliver_all sigs g1")
    from Cons.prems(1) h Next d have r1: "r1 = Next g'" by simp
    have "sigkill g1 = 1 \<longrightarrow> graceful_shutdown g1 = 1"
      using handler_keeps_pending h Next Cons.prems(2) by blast
    with Cons.IH [of g1 evs1] d r1 show ?thesis by simp
  qed
qed

text \<open>
  Claim C5. The first interrupt signal (the handler run while \<open>sigkill\<close> is not 1, as
  in the initial state) sets the cancellation flag and returns without ending the
  process. An interrupt signal that arrives once \<open>sigkill\<close> is 1 ends the process with
  \<^verbatim>\<open>exit(1)\<close> after one message on stderr and nothing else: no sink is closed, no
  stream or session released. In every sequence of signals from the initial state the
  flag is set at most once, and whenever the handler ends the process the graceful
  request is pending (\<open>graceful_shutdown = 1\<close>).
\<close>

theorem shutdown_two_level:
  "(sigkill g \<noteq> 1 \<longrightarrow>
      sigpipe_handler SIGINT g =
        ([Fprintf_stderr msg_graceful], Next (g\<lparr>graceful_shutdown := 1, sigkill := 1\<rparr>)))
   \<and> sigkill init_globals \<noteq> 1
   \<and> (sigkill g2 = 1 \<longrightarrow>
        sigpipe_handler SIGINT g2 = ([Fprintf_stderr msg_forced], CallsExit 1))
   \<and> count_list (fst (deliver_all sigs init_globals)) (Fprintf_stderr msg_graceful) \<le> 1
   \<and> (deliver_all sigs init_globals = (evs, Next g') \<and> sigpipe_handler s g' = (ev, CallsExit c)
        \<longrightarrow> s = SIGINT \<and> c = 1 \<and> graceful_shutdown g' = 1 \<and> ev = [Fprintf_stderr msg_forced])"
proof -
  have a: "count_list (fst (deliver_all sigs init_globals)) (Fprintf_stderr msg_graceful) \<le> 1"
    using deliver_all_graceful_once [of sigs init_globals] by (simp split: if_splits)
  have b: "s = SIGINT \<and> c = 1 \<and> graceful_shutdown g' = 1 \<and> ev = [Fprintf_stderr msg_forced]"
    if d: "deliver_all sigs init_globals = (evs, Next g')"
      and x: "sigpipe_handler s g' = (ev, CallsExit c)"
  proof -
    have "sigkill g' = 1 \<longrightarrow> graceful_shutdown g' = 1"
      using deliver_all_pending [OF d] by (simp add: init_globals_def)
    with handler_exit_only_forced [OF x] show ?thesis by simp
  qed
  show ?thesis
    using a b handler_sigint_first handler_sigint_second by (simp add: init_globals_def)
qed

theorem shutdown_two_level_witness:
  "sigpipe_handler SIGINT init_globals =
     ([Fprintf_stderr msg_graceful], Next \<lparr>graceful_shutdown = 1, sigkill = 1\<rparr>)
   \<and> sigpipe_handler SIGINT \<lparr>graceful_shutdown = 1, sigkill = 1\<rparr> =
     ([Fprintf_stderr msg_forced], CallsExit 1)
   \<and> deliver_all [SIGPIPE, SIGINT, SIGPIPE] init_globals =
       ([Fprintf_stderr msg_sigpipe, Fprintf_stderr msg_graceful, Fprintf_stderr msg_sigpipe],
        Next \<lparr>graceful_shutdown = 1, sigkill = 1\<rparr>)
   \<and> graceful_shutdown \<lparr>graceful_shutdown = 1, sigkill = 1\<rparr> = 1"
proof -
  have d: "deliver_all [SIGPIPE, SIGINT, SIGPIPE] init_globals =
       ([Fprintf_stderr msg_sigpipe, Fprintf_stderr msg_graceful, Fprintf_stderr msg_sigpipe],
        Next \<lparr>graceful_shutdown = 1, sigkill = 1\<rparr>)"
    by (simp add: sigpipe_handler_def init_globals_def libc_defs)
  have x: "sigpipe_handler SIGINT \<lparr>graceful_shutdown = 1, sigkill = 1\<rparr> =
     ([Fprintf_stderr msg_forced], CallsExit 1)"
    by (simp add: sigpipe_handler_def libc_defs)
  from shutdown_two_level [of init_globals "\<lparr>graceful_shutdown = 1, sigkill = 1\<rparr>"
         "[SIGPIPE, SIGINT, SIGPIPE]" _ "\<lparr>graceful_shutdown = 1, sigkill = 1\<rparr>" SIGINT
         "[Fprintf_stderr msg_forced]" 1]
       d x
  show ?thesis by (simp add: init_globals_def)
qed

section \<open>Properties of the relay loops\<close>

lemma writes_append: "writes (xs @ ys) = writes xs + writes ys"
  by (simp add: writes_def)

lemma proc_run_Exited: "proc_run stmt acts (Exited c) = ([], Exited c)"
  by (induction acts) (simp_all add: proc_action_def)

text \<open>
  A budget argument: if, while the flag is set, no statement of a thread writes more
  than the budget of the state it starts from, and it leaves a budget at most what is
  left over, then a whole run writes at most the budget of its first state.
\<close>

lemma run_budget:
  assumes nxt: "\<And>r g l ev l'. graceful_shutdown g = 1 \<Longrightarrow> stmt r g l = (ev, Next l')
                  \<Longrightarrow> writes ev + B l' \<le> B l"
      and ext: "\<And>r g l ev c. graceful_shutdown g = 1 \<Longrightarrow> stmt r g l = (ev, CallsExit c)
                  \<Longrightarrow> writes ev \<le> B l"
  shows "graceful_shutdown g = 1 \<Longrightarrow> writes (fst (proc_run stmt acts (Running g l))) \<le> B l"
proof (induction acts arbitrary: g l)
  case Nil
  show ?case by (simp add: writes_def)
next
  case (Cons a acts)
  show ?case
  proof (cases a)
    case (Signal s)
    obtain ev r where h: "sigpipe_handler s g = (ev, r)" by (cases "sigpipe_handler s g")
    have w: "writes ev = 0" using handler_no_write [of s g] h by simp
    show ?thesis
    proof (cases r)
      case (CallsExit c)
      with Signal h w show ?thesis
        by (simp add: proc_action_def proc_run_Exited)
    next
      case (Next g')
      have f: "graceful_shutdown g' = 1"
        using handler_keeps_flag h Next Cons.prems by blast
      obtain evs p where d: "proc_run stmt acts (Running g' l) = (evs, p)"
        by (cases "proc_run stmt acts (Running g' l)")
      have "writes evs \<le> B l" using Cons.IH [OF f, of l] d by simp
      with Signal h Next d w show ?thesis
        by (simp add: proc_action_def writes_append)
    qed
  next
    case (Step r)
    obtain ev x where h: "stmt r g l = (ev, x)" by (cases "stmt r g l")
    show ?thesis
    proof (cases x)
      case (CallsExit c)
      with Step h ext [OF Cons.prems, of r l ev c] show ?thesis
        by (simp add: proc_action_def proc_run_Exited)
    next
      case (Next l')
      obtain evs p where d: "proc_run stmt acts (Running g l') = (evs, p)"
        by (cases "proc_run stmt acts (Running g l')")
      have "writes evs \<le> B l'" using Cons.IH [OF Cons.prems, of l'] d by simp
      moreover have "writes ev + B l' \<le> B l" using nxt [OF Cons.prems, of r l ev l'] h Next by simp
      ultimately show ?thesis using Step h Next d
        by (simp add: proc_action_def writes_append)
    qed
  qed
qed

lemma audio_budget_next:
  "graceful_shutdown g = 1 \<Longrightarrow> thread_ReceiveAudio r g l = (ev, Next l')
   \<Longrightarrow> writes ev + audio_budget l' \<le> audio_budget l"
  by (cases "a_pc l")
     (auto simp: thread_ReceiveAudio_def audio_budget_def writes_def Let_def split: if_splits)

lemma audio_budget_exit:
  "thread_ReceiveAudio r g l = (ev, CallsExit c) \<Longrightarrow> writes ev = 0"
  by (cases "a_pc l")
     (auto simp: thread_ReceiveAudio_def writes_def Let_def split: if_splits)

lemma audio_writes_bound:
  "graceful_shutdown g = 1 \<Longrightarrow>
   writes (fst (proc_run thread_ReceiveAudio acts (Running g l))) \<le> audio_budget l"
  by (rule run_budget [where B = audio_budget]) (simp_all add: audio_budget_next audio_budget_exit)

lemma video_budget_next:
  "graceful_shutdown g = 1 \<Longrightarrow> thread_ReceiveVideo r g l = (ev, Next l')
   \<Longrightarrow> writes ev + video_budget l' \<le> video_budget l"
  by (cases "v_pc l")
     (auto simp: thread_ReceiveVideo_def video_budget_def writes_def Let_def split: if_splits)

lemma video_budget_exit:
  "thread_ReceiveVideo r g l = (ev, CallsExit c) \<Longrightarrow> writes ev = 0"
  by (cases "v_pc l")
     (auto simp: thread_ReceiveVideo_def writes_def Let_def split: if_splits)

lemma video_writes_bound:
  "graceful_shutdown g = 1 \<Longrightarrow>
   writes (fst (proc_run thread_ReceiveVideo acts (Running g l))) \<le> video_budget l"
  by (rule run_budget [where B = video_budget]) (simp_all add: video_budget_next video_budget_exit)


lemma sigint_sets_flag:
  "proc_action stmt (Signal SIGINT) p = (ev, Running g l) \<Longrightarrow> graceful_shutdown g = 1"
  by (cases p)
     (auto simp: proc_action_def sigpipe_handler_def libc_defs split: if_splits)

text \<open>
  Claim C6. Once the cancellation flag is set, whatever the thread was doing and
  whatever the calls return and whichever signals still arrive, the audio loop and the
  video loop each perform at most one more \<^verbatim>\<open>write\<close> to their sink (successful or
  not); the same holds from the state right after an interrupt signal has been
  handled. After a write with the flag set, the test that follows leaves the loop.
\<close>

theorem one_write_after_cancellation:
  "(graceful_shutdown g = 1 \<longrightarrow>
      writes (fst (proc_run thread_ReceiveAudio acts (Running g la))) \<le> 1
      \<and> writes (fst (proc_run thread_ReceiveVideo acts (Running g lv))) \<le> 1)
   \<and> writes (fst (proc_run thread_ReceiveAudio acts
         (snd (proc_action thread_ReceiveAudio (Signal SIGINT) pa)))) \<le> 1
   \<and> writes (fst (proc_run thread_ReceiveVideo acts
         (snd (proc_action thread_ReceiveVideo (Signal SIGINT) pv)))) \<le> 1
   \<and> (graceful_shutdown g = 1 \<and> a_pc la = A_Test2 \<longrightarrow>
         thread_ReceiveAudio r g la = ([], Next (la\<lparr>a_pc := A_Close\<rparr>)))
   \<and> (graceful_shutdown g = 1 \<and> v_pc lv = V_Test \<longrightarrow>
         thread_ReceiveVideo r g lv = ([], Next (lv\<lparr>v_pc := V_Close\<rparr>)))"
proof -
  have a: "writes (fst (proc_run thread_ReceiveAudio acts (Running g' l))) \<le> 1"
    if "graceful_shutdown g' = 1" for g' l
    using audio_writes_bound [OF that, of acts l] by (simp add: audio_budget_def split: if_splits)
  have v: "writes (fst (proc_run thread_ReceiveVideo acts (Running g' l))) \<le> 1"
    if "graceful_shutdown g' = 1" for g' l
    using video_writes_bound [OF that, of acts l] by (simp add: video_budget_def split: if_splits)
  have sa: "writes (fst (proc_run thread_ReceiveAudio acts
         (snd (proc_action thread_ReceiveAudio (Signal SIGINT) pa)))) \<le> 1"
  proof (cases "snd (proc_action thread_ReceiveAudio (Signal SIGINT) pa)")
    case (Exited c)
    then show ?thesis by (simp add: proc_run_Exited writes_def)
  next
    case (Running g' l')
    then have "graceful_shutdown g' = 1"
      using sigint_sets_flag [of thread_ReceiveAudio pa _ g' l'] by (metis prod.collapse)
    with Running a show ?thesis by simp
  qed
  have sv: "writes (fst (proc_run thread_ReceiveVideo acts
         (snd (proc_action thread_ReceiveVideo (Signal SIGINT) pv)))) \<le> 1"
  proof (cases "snd (proc_action thread_ReceiveVideo (Signal SIGINT) pv)")
    case (Exited c)
    then show ?thesis by (simp add: proc_run_Exited writes_def)
  next
    case (Running g' l')
    then have "graceful_shutdown g' = 1"
      using sigint_sets_flag [of thread_ReceiveVideo pv _ g' l'] by (metis prod.collapse)
    with Running v show ?thesis by simp
  qed
  show ?thesis
    using a v sa sv by (simp add: thread_ReceiveAudio_def thread_ReceiveVideo_def)
qed

theorem one_write_after_cancellation_witness:
  "graceful_shutdown \<lparr>graceful_shutdown = 1, sigkill = 1\<rparr> = 1
   \<and> fst (proc_run thread_ReceiveAudio [Step 160, Step 0, Step 0]
        (Running \<lparr>graceful_shutdown = 1, sigkill = 1\<rparr>
           \<lparr>a_pc = A_Write, a_avIndex = 0, a_ret = 160, audio_pipe_fd = 5\<rparr>))
      = [Write 5 160, Close 5, Printf ''[thread_ReceiveAudio] thread exit\<newline>'' []]
   \<and> writes (fst (proc_run thread_ReceiveAudio [Step 160, Step 0, Step 0]
        (Running \<lparr>graceful_shutdown = 1, sigkill = 1\<rparr>
           \<lparr>a_pc = A_Write, a_avIndex = 0, a_ret = 160, audio_pipe_fd = 5\<rparr>))) \<le> 1
   \<and> writes (fst (proc_run thread_ReceiveVideo [Step 900, Step 900, Step 0, Step 0]
        (Running \<lparr>graceful_shutdown = 1, sigkill = 1\<rparr>
           \<lparr>v_pc = V_Recv, v_avIndex = 0, v_ret = 0, video_pipe_fd = 6\<rparr>))) \<le> 1
   \<and> thread_ReceiveAudio 0 \<lparr>graceful_shutdown = 1, sigkill = 1\<rparr>
        \<lparr>a_pc = A_Test2, a_avIndex = 0, a_ret = 160, audio_pipe_fd = 5\<rparr>
      = ([], Next \<lparr>a_pc = A_Close, a_avIndex = 0, a_ret = 160, audio_pipe_fd = 5\<rparr>)
   \<and> thread_ReceiveVideo 0 \<lparr>graceful_shutdown = 1, sigkill = 1\<rparr>
        \<lparr>v_pc = V_Test, v_avIndex = 0, v_ret = 900, video_pipe_fd = 6\<rparr>
      = ([], Next \<lparr>v_pc = V_Close, v_avIndex = 0, v_ret = 900, video_pipe_fd = 6\<rparr>)"
proof -
  have e: "fst (proc_run thread_ReceiveAudio [Step 160, Step 0, Step 0]
        (Running \<lparr>graceful_shutdown = 1, sigkill = 1\<rparr>
           \<lparr>a_pc = A_Write, a_avIndex = 0, a_ret = 160, audio_pipe_fd = 5\<rparr>))
      = [Write 5 160, Close 5, Printf ''[thread_ReceiveAudio] thread exit\<newline>'' []]"
    by (simp add: proc_action_def thread_ReceiveAudio_def)
  have t: "thread_ReceiveAudio 0 \<lparr>graceful_shutdown = 1, sigkill = 1\<rparr>
        \<lparr>a_pc = A_Test2, a_avIndex = 0, a_ret = 160, audio_pipe_fd = 5\<rparr>
      = ([], Next \<lparr>a_pc = A_Close, a_avIndex = 0, a_ret = 160, audio_pipe_fd = 5\<rparr>)"
    using one_write_after_cancellation
      [of "\<lparr>graceful_shutdown = 1, sigkill = 1\<rparr>" "[]"
          "\<lparr>a_pc = A_Test2, a_avIndex = 0, a_ret = 160, audio_pipe_fd = 5\<rparr>"
          "\<lparr>v_pc = V_Test, v_avIndex = 0, v_ret = 900, video_pipe_fd = 6\<rparr>" _ _ 0]
    by simp
  have u: "thread_ReceiveVideo 0 \<lparr>graceful_shutdown = 1, sigkill = 1\<rparr>
        \<lparr>v_pc = V_Test, v_avIndex = 0, v_ret = 900, video_pipe_fd = 6\<rparr>
      = ([], Next \<lparr>v_pc = V_Close, v_avIndex = 0, v_ret = 900, video_pipe_fd = 6\<rparr>)"
    using one_write_after_cancellation
      [of "\<lparr>graceful_shutdown = 1, sigkill = 1\<rparr>" "[]"
          "\<lparr>a_pc = A_Test2, a_avIndex = 0, a_ret = 160, audio_pipe_fd = 5\<rparr>"
          "\<lparr>v_pc = V_Test, v_avIndex = 0, v_ret = 900, video_pipe_fd = 6\<rparr>" _ _ 0]
    by simp
  show ?thesis
    using e t u
      one_write_after_cancellation
        [of "\<lparr>graceful_shutdown = 1, sigkill = 1\<rparr>" "[Step 160, Step 0, Step 0]"
          "\<lparr>a_pc = A_Write, a_avIndex = 0, a_ret = 160, audio_pipe_fd = 5\<rparr>"
          "\<lparr>v_pc = V_Recv, v_avIndex = 0, v_ret = 0, video_pipe_fd = 6\<rparr>"]
      one_write_after_cancellation
        [of "\<lparr>graceful_shutdown = 1, sigkill = 1\<rparr>" "[Step 900, Step 900, Step 0, Step 0]"
          "\<lparr>a_pc = A_Write, a_avIndex = 0, a_ret = 160, audio_pipe_fd = 5\<rparr>"
          "\<lparr>v_pc = V_Recv, v_avIndex = 0, v_ret = 0, video_pipe_fd = 6\<rparr>"]
    by simp
qed

text \<open>
  Claim C8. In the audio loop, when \<^verbatim>\<open>avRecvAudioData\<close> returns
  \<open>AV_ER_LOSED_THIS_FRAME\<close>, the statement performs the receive call and nothing else:
  no \<^verbatim>\<open>write\<close>, no exit. The thread is back at the top of the loop, at
  \<^verbatim>\<open>avCheckAudioBuf\<close>, and not at the \<^verbatim>\<open>close\<close> after the loop.
\<close>

theorem lost_frame_skipped:
  "a_pc l = A_Recv \<Longrightarrow>
   thread_ReceiveAudio AV_ER_LOSED_THIS_FRAME g l =
     ([AvRecvAudioData (a_avIndex l)],
      Next (l\<lparr>a_ret := AV_ER_LOSED_THIS_FRAME, a_pc := A_Check\<rparr>))
   \<and> proc_action thread_ReceiveAudio (Step AV_ER_LOSED_THIS_FRAME) (Running g l) =
     ([AvRecvAudioData (a_avIndex l)],
      Running g (l\<lparr>a_ret := AV_ER_LOSED_THIS_FRAME, a_pc := A_Check\<rparr>))
   \<and> writes (fst (thread_ReceiveAudio AV_ER_LOSED_THIS_FRAME g l)) = 0"
  by (simp add: thread_ReceiveAudio_def proc_action_def writes_def sdk_defs)

theorem lost_frame_skipped_witness:
  "a_pc \<lparr>a_pc = A_Recv, a_avIndex = 7, a_ret = 30, audio_pipe_fd = 5\<rparr> = A_Recv
   \<and> thread_ReceiveAudio AV_ER_LOSED_THIS_FRAME init_globals
        \<lparr>a_pc = A_Recv, a_avIndex = 7, a_ret = 30, audio_pipe_fd = 5\<rparr> =
     ([AvRecvAudioData 7],
      Next \<lparr>a_pc = A_Check, a_avIndex = 7, a_ret = AV_ER_LOSED_THIS_FRAME, audio_pipe_fd = 5\<rparr>)"
  using lost_frame_skipped
    [of "\<lparr>a_pc = A_Recv, a_avIndex = 7, a_ret = 30, audio_pipe_fd = 5\<rparr>" init_globals]
  by simp

lemma audio_exits_before_write:
  "graceful_shutdown g = 1 \<Longrightarrow> a_pc l = A_Test1 \<Longrightarrow>
   thread_ReceiveAudio r g l = ([], Next (l\<lparr>a_pc := A_Close\<rparr>))"
  by (simp add: thread_ReceiveAudio_def)

text \<open>
  Claim C4. The video loop has no test of the flag between the receive and the write.
  In this run the video thread opens its sink (descriptor 6), the interrupt signal sets
  the flag, then a receive returns 900 bytes: the thread writes them to the sink and
  leaves the loop only at the test after the write.
\<close>

theorem video_writes_after_cancellation:
  "proc_run thread_ReceiveVideo [Step 6, Signal SIGINT, Step 900, Step 900, Step 0, Step 0]
     (Running init_globals (video_start 0)) =
   ([Printf ''Video starting...\<newline>'' [], Printf ''Start IPCAM video stream OK!\<newline>'' [],
     Open VIDEO_FIFO_PATH O_WRONLY,
     Fprintf_stderr msg_graceful,
     AvRecvFrameData2 0,
     Write 6 900,
     Close 6, Printf ''[thread_ReceiveVideo] thread exit\<newline>'' []],
    Running \<lparr>graceful_shutdown = 1, sigkill = 1\<rparr>
      \<lparr>v_pc = V_Done, v_avIndex = 0, v_ret = 900, video_pipe_fd = 6\<rparr>)"
  by (simp add: proc_action_def thread_ReceiveVideo_def video_start_def sigpipe_handler_def
        init_globals_def libc_defs sdk_defs)

section \<open>Sink failures\<close>

lemma connect_audio_open_fails:
  "audio_open_ret e = - 1 \<Longrightarrow>
   thread_ConnectCCR e = ([Fork, Open AUDIO_FIFO_PATH O_RDWR, Perror ''open''], Exits EXIT_FAILURE)"
  by (simp add: thread_ConnectCCR_def)

lemma connect_video_open_fails:
  "audio_open_ret e \<noteq> - 1 \<Longrightarrow> video_open_ret e = - 1 \<Longrightarrow>
   thread_ConnectCCR e =
     ([Fork, Open AUDIO_FIFO_PATH O_RDWR, Open VIDEO_FIFO_PATH O_RDWR, Perror ''open''],
      Exits EXIT_FAILURE)"
  by (simp add: thread_ConnectCCR_def)

lemma main_runs_thread:
  "2 \<le> argc m \<Longrightarrow> initialize_ret m = IOTC_ER_NoERROR \<Longrightarrow> create_connect_ret m = 0 \<Longrightarrow>
   snd (main m) = (case snd (thread_ConnectCCR (conn m)) of Returns v \<Rightarrow> Returns 0 | out \<Rightarrow> out)"
  by (simp add: main_def Let_def split: prod.splits outcome.splits)

text \<open>
  Claim C10. When the \<^verbatim>\<open>open\<close> of a relay thread returns \<open>-1\<close> the thread prints
  the error and calls \<^verbatim>\<open>exit(EXIT_FAILURE)\<close>, which ends the process; so does the
  session manager when either of its two \<^verbatim>\<open>open\<close> calls returns \<open>-1\<close>, and
  \<^verbatim>\<open>main\<close> then ends with that code, which is not 0. A \<^verbatim>\<open>write\<close> that returns a
  negative value is only printed: the thread goes on to the test of the flag exactly as
  after a successful write, and with the flag not set it is back at the top of the loop.
\<close>

theorem unopenable_sink_is_fatal:
  "(a_pc la = A_Open \<longrightarrow>
      thread_ReceiveAudio (- 1) g la =
        ([Printf ''Audio Starting...\<newline>'' [], Printf ''Start IPCAM audio stream OK!\<newline>'' [],
          Open AUDIO_FIFO_PATH O_WRONLY, Perror ''open''], CallsExit EXIT_FAILURE)
      \<and> snd (proc_action thread_ReceiveAudio (Step (- 1)) (Running g la)) = Exited EXIT_FAILURE)
   \<and> (v_pc lv = V_Open \<longrightarrow>
      thread_ReceiveVideo (- 1) g lv =
        ([Printf ''Video starting...\<newline>'' [], Printf ''Start IPCAM video stream OK!\<newline>'' [],
          Open VIDEO_FIFO_PATH O_WRONLY, Perror ''open''], CallsExit EXIT_FAILURE)
      \<and> snd (proc_action thread_ReceiveVideo (Step (- 1)) (Running g lv)) = Exited EXIT_FAILURE)
   \<and> (audio_open_ret e1 = - 1 \<longrightarrow>
        thread_ConnectCCR e1 =
          ([Fork, Open AUDIO_FIFO_PATH O_RDWR, Perror ''open''], Exits EXIT_FAILURE))
   \<and> (audio_open_ret e2 \<noteq> - 1 \<and> video_open_ret e2 = - 1 \<longrightarrow>
        thread_ConnectCCR e2 =
          ([Fork, Open AUDIO_FIFO_PATH O_RDWR, Open VIDEO_FIFO_PATH O_RDWR, Perror ''open''],
           Exits EXIT_FAILURE))
   \<and> (2 \<le> argc m \<and> initialize_ret m = IOTC_ER_NoERROR \<and> create_connect_ret m = 0
        \<and> (audio_open_ret (conn m) = - 1 \<or> video_open_ret (conn m) = - 1) \<longrightarrow>
        snd (main m) = Exits EXIT_FAILURE)
   \<and> EXIT_FAILURE \<noteq> 0
   \<and> (a_pc la2 = A_Write \<longrightarrow>
        thread_ReceiveAudio r g la2 =
          (if r < 0
           then [Write (audio_pipe_fd la2) (a_ret la2),
                 Printf ''audio_playback::write , ret=[%d]\<newline>'' [r]]
           else [Write (audio_pipe_fd la2) (a_ret la2)],
           Next (la2\<lparr>a_ret := r, a_pc := A_Test2\<rparr>)))
   \<and> (a_pc la3 = A_Test2 \<and> graceful_shutdown g \<noteq> 1 \<longrightarrow>
        thread_ReceiveAudio r g la3 = ([], Next (la3\<lparr>a_pc := A_Check\<rparr>)))
   \<and> (v_pc lv2 = V_Write \<longrightarrow>
        thread_ReceiveVideo r g lv2 =
          (if r < 0
           then [Write (video_pipe_fd lv2) (v_ret lv2),
                 Printf ''video_playback::write , ret=[%d]\<newline>'' [r]]
           else [Write (video_pipe_fd lv2) (v_ret lv2)],
           Next (lv2\<lparr>v_ret := r, v_pc := V_Test\<rparr>)))
   \<and> (v_pc lv3 = V_Test \<and> graceful_shutdown g \<noteq> 1 \<longrightarrow>
        thread_ReceiveVideo r g lv3 = ([], Next (lv3\<lparr>v_pc := V_Recv\<rparr>)))"
proof -
  have m: "snd (main m) = Exits EXIT_FAILURE"
    if "2 \<le> argc m" "initialize_ret m = IOTC_ER_NoERROR" "create_connect_ret m = 0"
       "audio_open_ret (conn m) = - 1 \<or> video_open_ret (conn m) = - 1"
  proof -
    have "snd (thread_ConnectCCR (conn m)) = Exits EXIT_FAILURE"
      using that(4) connect_audio_open_fails [of "conn m"] connect_video_open_fails [of "conn m"]
      by (cases "audio_open_ret (conn m) = - 1") auto
    with main_runs_thread [OF that(1-3)] show ?thesis by simp
  qed
  have a: "a_pc la = A_Open \<longrightarrow>
      thread_ReceiveAudio (- 1) g la =
        ([Printf ''Audio Starting...\<newline>'' [], Printf ''Start IPCAM audio stream OK!\<newline>'' [],
          Open AUDIO_FIFO_PATH O_WRONLY, Perror ''open''], CallsExit EXIT_FAILURE)
      \<and> snd (proc_action thread_ReceiveAudio (Step (- 1)) (Running g la)) = Exited EXIT_FAILURE"
    by (simp add: thread_ReceiveAudio_def proc_action_def)
  have v: "v_pc lv = V_Open \<longrightarrow>
      thread_ReceiveVideo (- 1) g lv =
        ([Printf ''Video starting...\<newline>'' [], Printf ''Start IPCAM video stream OK!\<newline>'' [],
          Open VIDEO_FIFO_PATH O_WRONLY, Perror ''open''], CallsExit EXIT_FAILURE)
      \<and> snd (proc_action thread_ReceiveVideo (Step (- 1)) (Running g lv)) = Exited EXIT_FAILURE"
    by (simp add: thread_ReceiveVideo_def proc_action_def)
  have w: "a_pc la2 = A_Write \<longrightarrow>
        thread_ReceiveAudio r g la2 =
          (if r < 0
           then [Write (audio_pipe_fd la2) (a_ret la2),
                 Printf ''audio_playback::write , ret=[%d]\<newline>'' [r]]
           else [Write (audio_pipe_fd la2) (a_ret la2)],
           Next (la2\<lparr>a_ret := r, a_pc := A_Test2\<rparr>))"
    "a_pc la3 = A_Test2 \<and> graceful_shutdown g \<noteq> 1 \<longrightarrow>
        thread_ReceiveAudio r g la3 = ([], Next (la3\<lparr>a_pc := A_Check\<rparr>))"
    by (simp_all add: thread_ReceiveAudio_def)
  have x: "v_pc lv2 = V_Write \<longrightarrow>
        thread_ReceiveVideo r g lv2 =
          (if r < 0
           then [Write (video_pipe_fd lv2) (v_ret lv2),
                 Printf ''video_playback::write , ret=[%d]\<newline>'' [r]]
           else [Write (video_pipe_fd lv2) (v_ret lv2)],
           Next (lv2\<lparr>v_ret := r, v_pc := V_Test\<rparr>))"
    "v_pc lv3 = V_Test \<and> graceful_shutdown g \<noteq> 1 \<longrightarrow>
        thread_ReceiveVideo r g lv3 = ([], Next (lv3\<lparr>v_pc := V_Recv\<rparr>))"
    by (simp_all add: thread_ReceiveVideo_def)
  have c: "EXIT_FAILURE \<noteq> 0" by (simp add: libc_defs)
  show ?thesis
    using a v w x c m connect_audio_open_fails connect_video_open_fails by blast
qed


theorem unopenable_sink_is_fatal_witness:
  "a_pc (audio_start 2) = A_Open
   \<and> snd (proc_action thread_ReceiveAudio (Step (- 1)) (Running init_globals (audio_start 2)))
       = Exited EXIT_FAILURE
   \<and> v_pc (video_start 2) = V_Open
   \<and> snd (proc_action thread_ReceiveVideo (Step (- 1)) (Running init_globals (video_start 2)))
       = Exited EXIT_FAILURE
   \<and> audio_open_ret (env_ok\<lparr>audio_open_ret := - 1\<rparr>) = - 1
   \<and> snd (thread_ConnectCCR (env_ok\<lparr>audio_open_ret := - 1\<rparr>)) = Exits EXIT_FAILURE
   \<and> audio_open_ret (env_ok\<lparr>video_open_ret := - 1\<rparr>) \<noteq> - 1
   \<and> video_open_ret (env_ok\<lparr>video_open_ret := - 1\<rparr>) = - 1
   \<and> snd (thread_ConnectCCR (env_ok\<lparr>video_open_ret := - 1\<rparr>)) = Exits EXIT_FAILURE
   \<and> 2 \<le> argc (main_ok\<lparr>conn := env_ok\<lparr>video_open_ret := - 1\<rparr>\<rparr>)
   \<and> initialize_ret (main_ok\<lparr>conn := env_ok\<lparr>video_open_ret := - 1\<rparr>\<rparr>) = IOTC_ER_NoERROR
   \<and> create_connect_ret (main_ok\<lparr>conn := env_ok\<lparr>video_open_ret := - 1\<rparr>\<rparr>) = 0
   \<and> snd (main (main_ok\<lparr>conn := env_ok\<lparr>video_open_ret := - 1\<rparr>\<rparr>)) = Exits EXIT_FAILURE
   \<and> a_pc \<lparr>a_pc = A_Write, a_avIndex = 2, a_ret = 160, audio_pipe_fd = 5\<rparr> = A_Write
   \<and> thread_ReceiveAudio (- 1) init_globals
        \<lparr>a_pc = A_Write, a_avIndex = 2, a_ret = 160, audio_pipe_fd = 5\<rparr>
      = ([Write 5 160, Printf ''audio_playback::write , ret=[%d]\<newline>'' [- 1]],
         Next \<lparr>a_pc = A_Test2, a_avIndex = 2, a_ret = - 1, audio_pipe_fd = 5\<rparr>)
   \<and> a_pc \<lparr>a_pc = A_Test2, a_avIndex = 2, a_ret = - 1, audio_pipe_fd = 5\<rparr> = A_Test2
   \<and> graceful_shutdown init_globals \<noteq> 1
   \<and> thread_ReceiveAudio (- 1) init_globals
        \<lparr>a_pc = A_Test2, a_avIndex = 2, a_ret = - 1, audio_pipe_fd = 5\<rparr>
      = ([], Next \<lparr>a_pc = A_Check, a_avIndex = 2, a_ret = - 1, audio_pipe_fd = 5\<rparr>)
   \<and> v_pc \<lparr>v_pc = V_Write, v_avIndex = 2, v_ret = 900, video_pipe_fd = 6\<rparr> = V_Write
   \<and> thread_ReceiveVideo (- 1) init_globals
        \<lparr>v_pc = V_Write, v_avIndex = 2, v_ret = 900, video_pipe_fd = 6\<rparr>
      = ([Write 6 900, Printf ''video_playback::write , ret=[%d]\<newline>'' [- 1]],
         Next \<lparr>v_pc = V_Test, v_avIndex = 2, v_ret = - 1, video_pipe_fd = 6\<rparr>)
   \<and> v_pc \<lparr>v_pc = V_Test, v_avIndex = 2, v_ret = - 1, video_pipe_fd = 6\<rparr> = V_Test
   \<and> thread_ReceiveVideo (- 1) init_globals
        \<lparr>v_pc = V_Test, v_avIndex = 2, v_ret = - 1, video_pipe_fd = 6\<rparr>
      = ([], Next \<lparr>v_pc = V_Recv, v_avIndex = 2, v_ret = - 1, video_pipe_fd = 6\<rparr>)"
  using unopenable_sink_is_fatal
    [where la = "audio_start 2" and g = init_globals and lv = "video_start 2"
       and ?e1.0 = "env_ok\<lparr>audio_open_ret := - 1\<rparr>"
       and ?e2.0 = "env_ok\<lparr>video_open_ret := - 1\<rparr>"
       and m = "main_ok\<lparr>conn := env_ok\<lparr>video_open_ret := - 1\<rparr>\<rparr>"
       and r = "- 1"
       and ?la2.0 = "\<lparr>a_pc = A_Write, a_avIndex = 2, a_ret = 160, audio_pipe_fd = 5\<rparr>"
       and ?la3.0 = "\<lparr>a_pc = A_Test2, a_avIndex = 2, a_ret = - 1, audio_pipe_fd = 5\<rparr>"
       and ?lv2.0 = "\<lparr>v_pc = V_Write, v_avIndex = 2, v_ret = 900, video_pipe_fd = 6\<rparr>"
       and ?lv3.0 = "\<lparr>v_pc = V_Test, v_avIndex = 2, v_ret = - 1, video_pipe_fd = 6\<rparr>"]
  by (simp add: audio_start_def video_start_def env_ok_def main_ok_def init_globals_def
        IOTC_ER_NoERROR_def)

section \<open>Properties of the setup commands and the session manager\<close>

lemma start_ipcam_stream_result:
  "snd (start_ipcam_stream e i) =
     (if nightvision_ret e < 0 \<or> quality_ret e < 0 \<or> start_ret e < 0 \<or> audiostart_ret e < 0
      then 0 else 1)"
  by (simp add: start_ipcam_stream_def Let_def)

lemma start_ipcam_stream_commands:
  "filter is_ioctrl (fst (start_ipcam_stream e i)) =
     (if nightvision_ret e < 0 then [AvSendIOCtrl i 0x5000]
      else if quality_ret e < 0 then
        [AvSendIOCtrl i 0x5000, AvSendIOCtrl i IOTYPE_USER_IPCAM_SETSTREAMCTRL_REQ]
      else if start_ret e < 0 then
        [AvSendIOCtrl i 0x5000, AvSendIOCtrl i IOTYPE_USER_IPCAM_SETSTREAMCTRL_REQ,
         AvSendIOCtrl i IOTYPE_USER_IPCAM_START]
      else
        [AvSendIOCtrl i 0x5000, AvSendIOCtrl i IOTYPE_USER_IPCAM_SETSTREAMCTRL_REQ,
         AvSendIOCtrl i IOTYPE_USER_IPCAM_START, AvSendIOCtrl i IOTYPE_USER_IPCAM_AUDIOSTART])"
  by (simp add: start_ipcam_stream_def Let_def)

lemma start_ipcam_stream_quiet:
  "filter is_spawn (fst (start_ipcam_stream e i)) = []"
  "Fork \<notin> set (fst (start_ipcam_stream e i))"
  "Execlp p a \<notin> set (fst (start_ipcam_stream e i))"
  by (simp_all add: start_ipcam_stream_def Let_def)

lemma teardown_quiet:
  "filter is_spawn (fst (teardown e pid afd vfd sid i)) = []"
  "Fork \<notin> set (fst (teardown e pid afd vfd sid i))"
  "Execlp p a \<notin> set (fst (teardown e pid afd vfd sid i))"
  by (simp_all add: teardown_def)


lemma join_thread_quiet:
  "Fork \<notin> set (fst (join_thread fn tid j))"
  "Execlp p a \<notin> set (fst (join_thread fn tid j))"
  by (simp_all add: join_thread_def split: join_result.splits)

lemma streaming_not_started:
  "snd (start_ipcam_stream (ioctrl e) i) = 0 \<Longrightarrow>
   streaming e i = (fst (start_ipcam_stream (ioctrl e) i), None)"
  by (cases "start_ipcam_stream (ioctrl e) i") (simp add: streaming_def)

lemma streaming_quiet:
  "Fork \<notin> set (fst (streaming e i))"
  "Execlp p a \<notin> set (fst (streaming e i))"
  using start_ipcam_stream_quiet(2) [of "ioctrl e" i]
    start_ipcam_stream_quiet(3) [of p a "ioctrl e" i]
    join_thread_quiet(1) [of Fn_thread_ReceiveVideo "video_tid e" "video_join e"]
    join_thread_quiet(1) [of Fn_thread_ReceiveAudio "audio_tid e" "audio_join e"]
    join_thread_quiet(2) [of p a Fn_thread_ReceiveVideo "video_tid e" "video_join e"]
    join_thread_quiet(2) [of p a Fn_thread_ReceiveAudio "audio_tid e" "audio_join e"]
  by (auto simp: streaming_def Let_def split: prod.splits option.splits if_splits)


lemma connect_no_spawn:
  assumes "snd (start_ipcam_stream (ioctrl e) (client_start_ret e)) = 0"
  shows "filter is_spawn (fst (thread_ConnectCCR e)) = []"
  using streaming_not_started [OF assms]
    start_ipcam_stream_quiet(1) [of "ioctrl e" "client_start_ret e"]
    teardown_quiet(1) [of e "fork_ret e" "audio_open_ret e" "video_open_ret e" "connect_ret e"
      "client_start_ret e"]
  by (auto simp: thread_ConnectCCR_def Let_def split: prod.splits)

lemma connect_fork_first:
  "\<exists>rest. fst (thread_ConnectCCR e) = Fork # rest \<and> Fork \<notin> set rest"
  using streaming_quiet(1) [of e "client_start_ret e"]
    teardown_quiet(2) [of e "fork_ret e" "audio_open_ret e" "video_open_ret e" "connect_ret e"
      "client_start_ret e"]
  by (auto simp: thread_ConnectCCR_def Let_def split: prod.splits option.splits)

lemma connect_execlp_iff:
  "Execlp p a \<in> set (fst (thread_ConnectCCR e)) \<longleftrightarrow>
     p = ''ffmpeg'' \<and> a = ffmpeg_args
     \<and> fork_ret e = 0 \<and> audio_open_ret e \<noteq> - 1 \<and> video_open_ret e \<noteq> - 1"
  using streaming_quiet(2) [of p a e "client_start_ret e"]
    teardown_quiet(3) [of p a e "fork_ret e" "audio_open_ret e" "video_open_ret e" "connect_ret e"
      "client_start_ret e"]
  by (auto simp: thread_ConnectCCR_def Let_def split: prod.splits option.splits)

lemma connect_child:
  "fork_ret e = 0 \<Longrightarrow> audio_open_ret e \<noteq> - 1 \<Longrightarrow> video_open_ret e \<noteq> - 1 \<Longrightarrow>
   thread_ConnectCCR e =
     (if execlp_fails e
      then ([Fork, Open AUDIO_FIFO_PATH O_RDWR, Open VIDEO_FIFO_PATH O_RDWR,
             Execlp ''ffmpeg'' ffmpeg_args, Perror ''execlp''], Exits EXIT_FAILURE)
      else ([Fork, Open AUDIO_FIFO_PATH O_RDWR, Open VIDEO_FIFO_PATH O_RDWR,
             Execlp ''ffmpeg'' ffmpeg_args], Replaced))"
  by (simp add: thread_ConnectCCR_def Let_def)


text \<open>
  Claim C7. \<^verbatim>\<open>start_ipcam_stream\<close> sends the four setup commands in the order
  night vision (\<open>0x5000\<close>), stream quality, start video, start audio; a command is
  sent only when all the commands before it returned a non-negative value, so the
  commands sent are a prefix of the four that ends at the first failure. The function
  returns 0 as soon as one fails and 1 only when all four succeeded. When one of them
  fails, the session manager creates no thread at all: neither relay loop nor the
  buffer maintenance loop.
\<close>

theorem setup_commands_in_order:
  "filter is_ioctrl (fst (start_ipcam_stream e i)) =
     (if nightvision_ret e < 0 then [AvSendIOCtrl i 0x5000]
      else if quality_ret e < 0 then
        [AvSendIOCtrl i 0x5000, AvSendIOCtrl i IOTYPE_USER_IPCAM_SETSTREAMCTRL_REQ]
      else if start_ret e < 0 then
        [AvSendIOCtrl i 0x5000, AvSendIOCtrl i IOTYPE_USER_IPCAM_SETSTREAMCTRL_REQ,
         AvSendIOCtrl i IOTYPE_USER_IPCAM_START]
      else
        [AvSendIOCtrl i 0x5000, AvSendIOCtrl i IOTYPE_USER_IPCAM_SETSTREAMCTRL_REQ,
         AvSendIOCtrl i IOTYPE_USER_IPCAM_START, AvSendIOCtrl i IOTYPE_USER_IPCAM_AUDIOSTART])
   \<and> snd (start_ipcam_stream e i) =
     (if nightvision_ret e < 0 \<or> quality_ret e < 0 \<or> start_ret e < 0 \<or> audiostart_ret e < 0
      then 0 else 1)
   \<and> (nightvision_ret (ioctrl ce) < 0 \<or> quality_ret (ioctrl ce) < 0
        \<or> start_ret (ioctrl ce) < 0 \<or> audiostart_ret (ioctrl ce) < 0 \<longrightarrow>
        filter is_spawn (fst (thread_ConnectCCR ce)) = []
        \<and> streaming ce i = (fst (start_ipcam_stream (ioctrl ce) i), None))"
proof -
  have "filter is_spawn (fst (thread_ConnectCCR ce)) = []
        \<and> streaming ce i = (fst (start_ipcam_stream (ioctrl ce) i), None)"
    if f: "nightvision_ret (ioctrl ce) < 0 \<or> quality_ret (ioctrl ce) < 0
        \<or> start_ret (ioctrl ce) < 0 \<or> audiostart_ret (ioctrl ce) < 0"
  proof -
    have z: "snd (start_ipcam_stream (ioctrl ce) j) = 0" for j
      using f by (simp add: start_ipcam_stream_result)
    show ?thesis
      using connect_no_spawn [OF z] streaming_not_started [OF z] by simp
  qed
  then show ?thesis
    using start_ipcam_stream_commands [of e i] start_ipcam_stream_result [of e i] by blast
qed

theorem setup_commands_in_order_witness:
  "start_ret (ioctrl (env_ok\<lparr>ioctrl := io_ok\<lparr>start_ret := - 5\<rparr>\<rparr>)) < 0
   \<and> filter is_ioctrl (fst (start_ipcam_stream (io_ok\<lparr>start_ret := - 5\<rparr>) 2)) =
       [AvSendIOCtrl 2 0x5000, AvSendIOCtrl 2 IOTYPE_USER_IPCAM_SETSTREAMCTRL_REQ,
        AvSendIOCtrl 2 IOTYPE_USER_IPCAM_START]
   \<and> snd (start_ipcam_stream (io_ok\<lparr>start_ret := - 5\<rparr>) 2) = 0
   \<and> filter is_spawn (fst (thread_ConnectCCR (env_ok\<lparr>ioctrl := io_ok\<lparr>start_ret := - 5\<rparr>\<rparr>))) = []
   \<and> filter is_ioctrl (fst (start_ipcam_stream io_ok 2)) =
       [AvSendIOCtrl 2 0x5000, AvSendIOCtrl 2 IOTYPE_USER_IPCAM_SETSTREAMCTRL_REQ,
        AvSendIOCtrl 2 IOTYPE_USER_IPCAM_START, AvSendIOCtrl 2 IOTYPE_USER_IPCAM_AUDIOSTART]
   \<and> snd (start_ipcam_stream io_ok 2) = 1"
  using setup_commands_in_order
      [of "io_ok\<lparr>start_ret := - 5\<rparr>" 2 "env_ok\<lparr>ioctrl := io_ok\<lparr>start_ret := - 5\<rparr>\<rparr>"]
    setup_commands_in_order [of io_ok 2 env_ok]
  by (simp add: io_ok_def env_ok_def)

text \<open>
  Claim C3, as stated, fails. In the first run \<^verbatim>\<open>IOTC_Connect_ByUID_Parallel\<close>
  returns \<open>-1\<close>: the \<^verbatim>\<open>fork\<close> that creates the consumer process has been done, as
  the first action, before either sink was opened. The second run is the child of that
  fork: it opens the sinks and becomes \<^verbatim>\<open>ffmpeg\<close>, whatever happens to the connect
  in the parent.
\<close>

theorem consumer_started_counterexample:
  "thread_ConnectCCR (env_ok\<lparr>connect_ret := - 1\<rparr>) =
     ([Fork, Open AUDIO_FIFO_PATH O_RDWR, Open VIDEO_FIFO_PATH O_RDWR,
       IOTC_Get_SessionID, IOTC_Connect_ByUID_Parallel 1,
       Printf ''Connect by UID failed\<newline>'' []], Returns 0)
   \<and> thread_ConnectCCR (env_ok\<lparr>fork_ret := 0, connect_ret := - 1\<rparr>) =
     ([Fork, Open AUDIO_FIFO_PATH O_RDWR, Open VIDEO_FIFO_PATH O_RDWR,
       Execlp ''ffmpeg'' ffmpeg_args], Replaced)"
  by (simp add: thread_ConnectCCR_def env_ok_def)

text \<open>
  Claim C3, amended. The \<^verbatim>\<open>fork\<close> that creates the consumer process is the first
  action of every run of the session manager and happens once: before the sinks are
  opened, before the session slot, the connect, the stream start and the setup commands,
  and before any thread is created. The consumer program is executed in the child only,
  and only after the child has opened both sinks.
\<close>

theorem consumer_forked_first:
  "(\<exists>rest. fst (thread_ConnectCCR e) = Fork # rest \<and> Fork \<notin> set rest)
   \<and> (Execlp p a \<in> set (fst (thread_ConnectCCR e)) \<longleftrightarrow>
        p = ''ffmpeg'' \<and> a = ffmpeg_args
        \<and> fork_ret e = 0 \<and> audio_open_ret e \<noteq> - 1 \<and> video_open_ret e \<noteq> - 1)
   \<and> (fork_ret e2 = 0 \<and> audio_open_ret e2 \<noteq> - 1 \<and> video_open_ret e2 \<noteq> - 1 \<longrightarrow>
        thread_ConnectCCR e2 =
          (if execlp_fails e2
           then ([Fork, Open AUDIO_FIFO_PATH O_RDWR, Open VIDEO_FIFO_PATH O_RDWR,
                  Execlp ''ffmpeg'' ffmpeg_args, Perror ''execlp''], Exits EXIT_FAILURE)
           else ([Fork, Open AUDIO_FIFO_PATH O_RDWR, Open VIDEO_FIFO_PATH O_RDWR,
                  Execlp ''ffmpeg'' ffmpeg_args], Replaced)))"
  using connect_fork_first [of e] connect_execlp_iff [of p a e] connect_child [of e2]
  by blast

theorem consumer_forked_first_witness:
  "fork_ret (env_ok\<lparr>fork_ret := 0\<rparr>) = 0
   \<and> audio_open_ret (env_ok\<lparr>fork_ret := 0\<rparr>) \<noteq> - 1
   \<and> video_open_ret (env_ok\<lparr>fork_ret := 0\<rparr>) \<noteq> - 1
   \<and> thread_ConnectCCR (env_ok\<lparr>fork_ret := 0\<rparr>) =
       ([Fork, Open AUDIO_FIFO_PATH O_RDWR, Open VIDEO_FIFO_PATH O_RDWR,
         Execlp ''ffmpeg'' ffmpeg_args], Replaced)
   \<and> Execlp ''ffmpeg'' ffmpeg_args \<in> set (fst (thread_ConnectCCR (env_ok\<lparr>fork_ret := 0\<rparr>)))
   \<and> Execlp ''ffmpeg'' ffmpeg_args \<notin> set (fst (thread_ConnectCCR env_ok))
   \<and> (\<exists>rest. fst (thread_ConnectCCR env_ok) = Fork # rest \<and> Fork \<notin> set rest)"
  using consumer_forked_first [of "env_ok\<lparr>fork_ret := 0\<rparr>" "''ffmpeg''" ffmpeg_args "env_ok\<lparr>fork_ret := 0\<rparr>"]
    consumer_forked_first [of env_ok "''ffmpeg''" ffmpeg_args "env_ok\<lparr>fork_ret := 0\<rparr>"]
  by (simp add: env_ok_def)

section \<open>Exit codes\<close>
















section \<open>Runs of the session manager that miss the releases\<close>

text \<open>
  Claim C1. The three early failures return at once. In each of these runs the child
  has been forked and both sinks are open (descriptors 3 and 4), and the run ends with
  the message of the failing step: no \<^verbatim>\<open>close\<close>, no \<^verbatim>\<open>kill\<close>, no release of the
  session. The last run is the neighbouring path, a setup command that fails (start
  video returns \<open>-5\<close>): there the stop command and all the releases are performed.
\<close>

theorem early_failure_skips_teardown:
  "thread_ConnectCCR (env_ok\<lparr>get_session_ret := - 1\<rparr>) =
     ([Fork, Open AUDIO_FIFO_PATH O_RDWR, Open VIDEO_FIFO_PATH O_RDWR,
       IOTC_Get_SessionID, Printf ''Get session ID failed\<newline>'' []], Returns 0)
   \<and> thread_ConnectCCR (env_ok\<lparr>connect_ret := - 1\<rparr>) =
     ([Fork, Open AUDIO_FIFO_PATH O_RDWR, Open VIDEO_FIFO_PATH O_RDWR,
       IOTC_Get_SessionID, IOTC_Connect_ByUID_Parallel 1,
       Printf ''Connect by UID failed\<newline>'' []], Returns 0)
   \<and> thread_ConnectCCR (env_ok\<lparr>client_start_ret := - 1\<rparr>) =
     ([Fork, Open AUDIO_FIFO_PATH O_RDWR, Open VIDEO_FIFO_PATH O_RDWR,
       IOTC_Get_SessionID, IOTC_Connect_ByUID_Parallel 1, AvClientStart2 1,
       Printf ''avClientStart2 failed[%d]\<newline>'' [- 1]], Returns 0)
   \<and> thread_ConnectCCR (env_ok\<lparr>ioctrl := io_ok\<lparr>start_ret := - 5\<rparr>\<rparr>) =
     ([Fork, Open AUDIO_FIFO_PATH O_RDWR, Open VIDEO_FIFO_PATH O_RDWR,
       IOTC_Get_SessionID, IOTC_Connect_ByUID_Parallel 1, AvClientStart2 1,
       Printf ''Client started!\<newline>'' [],
       AvSendIOCtrl 2 0x5000, AvSendIOCtrl 2 IOTYPE_USER_IPCAM_SETSTREAMCTRL_REQ,
       AvSendIOCtrl 2 IOTYPE_USER_IPCAM_START, Printf msg_start_failed [- 5],
       AvSendIOCtrl 2 IOTYPE_USER_IPCAM_STOP,
       Close 4, Close 3, Kill 4242 SIGKILL,
       AvClientExit 1 0, AvClientStop 2, Printf ''Client stopped\<newline>'' [],
       IOTC_Session_Close 1, Printf ''Session closed\<newline>'' []], Returns 0)"
  by (simp add: env_ok_def io_ok_def thread_ConnectCCR_def streaming_def
        start_ipcam_stream_def teardown_def)

text \<open>
  Claim C2. In the first run everything succeeds up to the stop command, which returns
  \<open>-1\<close>: the error is printed and the function returns; the sinks stay open, the
  consumer process is not killed, the stream and the session are not released. The
  second run is the same with a stop command that succeeds: the releases follow in the
  order sinks, consumer process, stream, session.
\<close>

theorem stop_failure_skips_release:
  "thread_ConnectCCR (env_ok\<lparr>stop_ret := - 1\<rparr>) =
     ([Fork, Open AUDIO_FIFO_PATH O_RDWR, Open VIDEO_FIFO_PATH O_RDWR,
       IOTC_Get_SessionID, IOTC_Connect_ByUID_Parallel 1, AvClientStart2 1,
       Printf ''Client started!\<newline>'' [],
       AvSendIOCtrl 2 0x5000, AvSendIOCtrl 2 IOTYPE_USER_IPCAM_SETSTREAMCTRL_REQ,
       AvSendIOCtrl 2 IOTYPE_USER_IPCAM_START, AvSendIOCtrl 2 IOTYPE_USER_IPCAM_AUDIOSTART,
       Printf ''Start IP Camera...\<newline>'' [],
       Pthread_create Fn_thread_ReceiveVideo, Pthread_create Fn_thread_ReceiveAudio,
       Pthread_create Fn_thread_bufferClean,
       Pthread_join Fn_thread_ReceiveVideo, Pthread_join Fn_thread_ReceiveAudio,
       AvSendIOCtrl 2 IOTYPE_USER_IPCAM_STOP,
       Printf ''stop_ipcam_audio failed[%d]\<newline>'' [- 1]], Returns 0)
   \<and> thread_ConnectCCR env_ok =
     ([Fork, Open AUDIO_FIFO_PATH O_RDWR, Open VIDEO_FIFO_PATH O_RDWR,
       IOTC_Get_SessionID, IOTC_Connect_ByUID_Parallel 1, AvClientStart2 1,
       Printf ''Client started!\<newline>'' [],
       AvSendIOCtrl 2 0x5000, AvSendIOCtrl 2 IOTYPE_USER_IPCAM_SETSTREAMCTRL_REQ,
       AvSendIOCtrl 2 IOTYPE_USER_IPCAM_START, AvSendIOCtrl 2 IOTYPE_USER_IPCAM_AUDIOSTART,
       Printf ''Start IP Camera...\<newline>'' [],
       Pthread_create Fn_thread_ReceiveVideo, Pthread_create Fn_thread_ReceiveAudio,
       Pthread_create Fn_thread_bufferClean,
       Pthread_join Fn_thread_ReceiveVideo, Pthread_join Fn_thread_ReceiveAudio,
       AvSendIOCtrl 2 IOTYPE_USER_IPCAM_STOP,
       Close 4, Close 3, Kill 4242 SIGKILL,
       AvClientExit 1 0, AvClientStop 2, Printf ''Client stopped\<newline>'' [],
       IOTC_Session_Close 1, Printf ''Session closed\<newline>'' []], Returns 0)"
  by (simp add: env_ok_def io_ok_def thread_ConnectCCR_def streaming_def
        start_ipcam_stream_def join_thread_def teardown_def)

end
